theory Spec2Isabelle
  imports Complex_Main
begin

section \<open>JavaScript conventions shared by the components\<close>

text \<open>
  Counters, thresholds and millisecond settings are natural numbers; readings of
  \<^verbatim>\<open>Date.now()\<close> are integers. An optional numeric setting is a \<open>nat option\<close>
  (\<open>None\<close> for a property that was not given). The idiom \<^verbatim>\<open>value || fallback\<close> takes the
  fallback for a missing value and for \<^verbatim>\<open>0\<close>, the only falsy number of this domain.
\<close>

definition orDefault :: "'a::zero option \<Rightarrow> 'a \<Rightarrow> 'a" where
  "orDefault v d = (case v of None \<Rightarrow> d | Some n \<Rightarrow> if n = 0 then d else n)"

text \<open>\<^verbatim>\<open>now - this.lastFailureTime\<close> with \<^verbatim>\<open>null\<close>: the subtraction coerces \<^verbatim>\<open>null\<close> to 0.\<close>

definition toNumber :: "int option \<Rightarrow> int" where
  "toNumber v = (case v of None \<Rightarrow> 0 | Some t \<Rightarrow> t)"

section \<open>CircuitBreaker (src/core/CircuitBreaker.js)\<close>

datatype CircuitBreakerState = CLOSED | OPEN | HALF_OPEN

record CircuitBreakerConfig =
  cfgFailureThreshold :: "nat option"
  cfgTimeout :: "nat option"
  cfgMonitoringPeriod :: "nat option"

record CircuitBreaker =
  failureThreshold :: nat
  timeout :: nat
  monitoringPeriod :: nat
  state :: CircuitBreakerState
  failureCount :: nat
  lastFailureTime :: "int option"
  successCount :: nat
  monitoringStartTime :: int

text \<open>The constructor; \<open>now\<close> is the reading of \<^verbatim>\<open>Date.now()\<close> it takes.\<close>

definition newCircuitBreaker :: "CircuitBreakerConfig \<Rightarrow> int \<Rightarrow> CircuitBreaker" where
  "newCircuitBreaker config now =
     \<lparr> failureThreshold = orDefault (cfgFailureThreshold config) 5,
       timeout = orDefault (cfgTimeout config) 60000,
       monitoringPeriod = orDefault (cfgMonitoringPeriod config) 10000,
       state = CLOSED,
       failureCount = 0,
       lastFailureTime = None,
       successCount = 0,
       monitoringStartTime = now \<rparr>"

text \<open>\<^verbatim>\<open>canExecute\<close> returns its answer together with the breaker it leaves behind.\<close>

definition canExecute :: "int \<Rightarrow> CircuitBreaker \<Rightarrow> bool \<times> CircuitBreaker" where
  "canExecute now cb =
     (if state cb = CLOSED then (True, cb)
      else if state cb = OPEN then
        (if now - toNumber (lastFailureTime cb) > int (timeout cb)
         then (True, cb\<lparr>state := HALF_OPEN, successCount := 0\<rparr>)
         else (False, cb))
      else if state cb = HALF_OPEN then (True, cb)
      else (False, cb))"

definition recordSuccess :: "CircuitBreaker \<Rightarrow> CircuitBreaker" where
  "recordSuccess cb =
     (let cb1 = cb\<lparr>successCount := successCount cb + 1\<rparr> in
      if state cb1 = HALF_OPEN then
        (if successCount cb1 \<ge> failureThreshold cb1
         then cb1\<lparr>state := CLOSED, failureCount := 0, successCount := 0\<rparr>
         else cb1)
      else cb1)"

definition recordFailure :: "int \<Rightarrow> CircuitBreaker \<Rightarrow> CircuitBreaker" where
  "recordFailure now cb =
     (let cb1 = cb\<lparr>failureCount := failureCount cb + 1, lastFailureTime := Some now\<rparr> in
      if state cb1 = CLOSED \<or> state cb1 = HALF_OPEN then
        (if failureCount cb1 \<ge> failureThreshold cb1 then cb1\<lparr>state := OPEN\<rparr> else cb1)
      else cb1)"

definition reset :: "int \<Rightarrow> CircuitBreaker \<Rightarrow> CircuitBreaker" where
  "reset now cb =
     cb\<lparr>state := CLOSED, failureCount := 0, successCount := 0,
        lastFailureTime := None, monitoringStartTime := now\<rparr>"

text \<open>
  A history of outcome reports: each \<^verbatim>\<open>recordFailure()\<close> carries the clock reading
  it takes, \<^verbatim>\<open>recordSuccess()\<close> reads no clock.
\<close>

datatype outcomeReport = Failure int | Success

fun report :: "CircuitBreaker \<Rightarrow> outcomeReport \<Rightarrow> CircuitBreaker" where
  "report cb (Failure now) = recordFailure now cb"
| "report cb Success = recordSuccess cb"

definition reportAll :: "CircuitBreaker \<Rightarrow> outcomeReport list \<Rightarrow> CircuitBreaker" where
  "reportAll cb rs = foldl report cb rs"

fun isFailure :: "outcomeReport \<Rightarrow> bool" where
  "isFailure (Failure now) = True"
| "isFailure Success = False"

definition failuresIn :: "outcomeReport list \<Rightarrow> nat" where
  "failuresIn rs = length (filter isFailure rs)"

fun lastFailureIn :: "outcomeReport list \<Rightarrow> int option" where
  "lastFailureIn [] = None"
| "lastFailureIn (Failure now # rs) =
     (case lastFailureIn rs of None \<Rightarrow> Some now | Some later \<Rightarrow> Some later)"
| "lastFailureIn (Success # rs) = lastFailureIn rs"

text \<open>
  Any use of a breaker: the four methods in any order, each with the clock reading it
  takes.
\<close>

datatype breakerCall = CallCanExecute int | CallRecordSuccess | CallRecordFailure int | CallReset int

fun call :: "CircuitBreaker \<Rightarrow> breakerCall \<Rightarrow> CircuitBreaker" where
  "call cb (CallCanExecute now) = snd (canExecute now cb)"
| "call cb CallRecordSuccess = recordSuccess cb"
| "call cb (CallRecordFailure now) = recordFailure now cb"
| "call cb (CallReset now) = reset now cb"

definition callAll :: "CircuitBreaker \<Rightarrow> breakerCall list \<Rightarrow> CircuitBreaker" where
  "callAll cb cs = foldl call cb cs"

text \<open>
  The first scenario of the test suite: threshold 3, timeout 1000 ms, three failures in a
  row.
\<close>

definition scenarioConfig :: CircuitBreakerConfig where
  "scenarioConfig = \<lparr> cfgFailureThreshold = Some 3, cfgTimeout = Some 1000, cfgMonitoringPeriod = None \<rparr>"

definition scenarioBreaker :: CircuitBreaker where
  "scenarioBreaker = callAll (newCircuitBreaker scenarioConfig 0)
     [CallRecordFailure 1, CallRecordFailure 2, CallRecordFailure 3]"

section \<open>RetryManager (src/core/RetryManager.js)\<close>

text \<open>
  \<open>maxRetries\<close> bounds the loop counter and is a natural number. The three settings that
  enter the delay formula are JavaScript numbers, that is IEEE doubles, and may be
  fractions (a multiplier of 1.5, say); a double is a rational number, and the settings
  are rationals here.

  \<^verbatim>\<open>Math.min\<close> and \<^verbatim>\<open>Math.floor\<close> return exact results on doubles. The product
  \<^verbatim>\<open>*\<close> and \<^verbatim>\<open>Math.pow\<close> do not: each returns a double close to the exact result, the
  exact result itself only when no rounding occurs. What the runtime returns for them is
  a parameter of the model: \<open>multiply\<close> for the product of two doubles, \<open>mathPow\<close> for
  \<^verbatim>\<open>Math.pow\<close> with a whole-number exponent.
\<close>

record doubleArithmetic =
  multiply :: "rat \<Rightarrow> rat \<Rightarrow> rat"
  mathPow :: "rat \<Rightarrow> nat \<Rightarrow> rat"

record RetryConfig =
  cfgMaxRetries :: "nat option"
  cfgBackoffMultiplier :: "rat option"
  cfgMaxBackoffMs :: "rat option"
  cfgInitialDelayMs :: "rat option"

record RetryManager =
  maxRetries :: nat
  backoffMultiplier :: rat
  maxBackoffMs :: rat
  initialDelayMs :: rat

definition newRetryManager :: "RetryConfig \<Rightarrow> RetryManager" where
  "newRetryManager config =
     \<lparr> maxRetries = orDefault (cfgMaxRetries config) 3,
       backoffMultiplier = orDefault (cfgBackoffMultiplier config) 2,
       maxBackoffMs = orDefault (cfgMaxBackoffMs config) 30000,
       initialDelayMs = orDefault (cfgInitialDelayMs config) 1000 \<rparr>"

definition calculateDelay :: "doubleArithmetic \<Rightarrow> RetryManager \<Rightarrow> nat \<Rightarrow> int" where
  "calculateDelay arithmetic rm attempt =
     (let delay = min (multiply arithmetic (initialDelayMs rm)
                         (mathPow arithmetic (backoffMultiplier rm) attempt))
                      (maxBackoffMs rm)
      in \<lfloor>delay\<rfloor>)"

text \<open>
  The options of \<^verbatim>\<open>executeWithRetry\<close>. \<open>shouldRetry\<close> is the caller's predicate when one
  is given; \<open>onRetry\<close> and \<open>onFailure\<close> say whether the caller passed that callback. What
  \<^verbatim>\<open>executeWithRetry\<close> does around the operation is returned as a list of effects, in
  the order they happen: each invocation of the operation, each callback call with its
  arguments, each sleep with its duration.
\<close>

record 'e RetryOptions =
  shouldRetry :: "('e \<Rightarrow> bool) option"
  onRetry :: bool
  onFailure :: bool

datatype 'e retryEffect =
    Invoked
  | OnRetryCalled 'e nat int
  | Slept int
  | OnFailureCalled "'e option" nat

text \<open>\<^verbatim>\<open>!shouldRetry || shouldRetry(error)\<close>\<close>

definition retryAllowed :: "'e RetryOptions \<Rightarrow> 'e \<Rightarrow> bool" where
  "retryAllowed options error = (case shouldRetry options of None \<Rightarrow> True | Some p \<Rightarrow> p error)"

text \<open>
  The code after the loop: the \<open>onFailure\<close> call, if a callback was given, and the
  \<^verbatim>\<open>throw lastError\<close>. \<open>lastError\<close> is \<open>None\<close> while no attempt has failed
  (\<^verbatim>\<open>undefined\<close> in the source).
\<close>

definition giveUp :: "RetryManager \<Rightarrow> 'e RetryOptions \<Rightarrow> 'e option \<Rightarrow> 'e retryEffect list" where
  "giveUp rm options lastError =
     (if onFailure options then [OnFailureCalled lastError (maxRetries rm + 1)] else [])"

text \<open>
  The operation \<open>fn\<close> acts on a world \<open>'w\<close> and either throws (\<open>Inl\<close>) or returns
  (\<open>Inr\<close>). \<open>retryFrom\<close> is the \<^verbatim>\<open>for\<close> loop of \<^verbatim>\<open>executeWithRetry\<close> entered with the
  counter at \<open>attempt\<close>, followed by the code after the loop.
\<close>

function retryFrom ::
  "doubleArithmetic \<Rightarrow> RetryManager \<Rightarrow> 'e RetryOptions \<Rightarrow> ('w \<Rightarrow> ('e + 'a) \<times> 'w) \<Rightarrow> nat \<Rightarrow> 'e option \<Rightarrow> 'w
   \<Rightarrow> ('e option + 'a) \<times> 'w \<times> 'e retryEffect list" where
  "retryFrom arithmetic rm options fn attempt lastError w =
     (if attempt \<le> maxRetries rm then
        (case fn w of
           (Inr result, w1) \<Rightarrow> (Inr result, w1, [Invoked])
         | (Inl error, w1) \<Rightarrow>
             (if attempt < maxRetries rm \<and> retryAllowed options error then
                (let delay = calculateDelay arithmetic rm attempt;
                     (outcome, w2, effects) =
                       retryFrom arithmetic rm options fn (attempt + 1) (Some error) w1
                 in (outcome, w2,
                     Invoked # (if onRetry options then [OnRetryCalled error (attempt + 1) delay] else [])
                       @ Slept delay # effects))
              else (Inl (Some error), w1, Invoked # giveUp rm options (Some error))))
      else (Inl lastError, w, giveUp rm options lastError))"
  by pat_completeness auto
termination
  by (relation "measure (\<lambda>(arithmetic, rm, options, fn, attempt, lastError, w).
                            Suc (maxRetries rm) - attempt)") auto

definition executeWithRetry ::
  "doubleArithmetic \<Rightarrow> RetryManager \<Rightarrow> 'e RetryOptions \<Rightarrow> ('w \<Rightarrow> ('e + 'a) \<times> 'w) \<Rightarrow> 'w
   \<Rightarrow> ('e option + 'a) \<times> 'w \<times> 'e retryEffect list" where
  "executeWithRetry arithmetic rm options fn w = retryFrom arithmetic rm options fn 0 None w"






text \<open>
  The second scenario of the test suite, and a policy with a fractional multiplier. In
  both, every product and every power that the delays need is a whole number below
  \<open>2 ^ 53\<close> or a fraction with a power of two below and few bits above (3/2, 9/4), which a
  double holds exactly: no rounding occurs, and the runtime's arithmetic is the exact one
  on these operands.
\<close>

definition exactArithmetic :: doubleArithmetic where
  "exactArithmetic = \<lparr> multiply = (\<lambda>x y. x * y), mathPow = (\<lambda>x n. x ^ n) \<rparr>"

definition scenarioRetry :: RetryManager where
  "scenarioRetry = newRetryManager
     \<lparr> cfgMaxRetries = Some 3, cfgBackoffMultiplier = Some 2,
       cfgMaxBackoffMs = Some 1000, cfgInitialDelayMs = Some 100 \<rparr>"




definition refusingOptions :: "string RetryOptions" where
  "refusingOptions = \<lparr> shouldRetry = Some (\<lambda>error. False), onRetry = True, onFailure = True \<rparr>"

text \<open>An operation that throws on every invocation; its world counts the invocations.\<close>

definition alwaysThrows :: "nat \<Rightarrow> (string + unit) \<times> nat" where
  "alwaysThrows calls = (Inl ''persistent failure'', calls + 1)"

section \<open>SQSClient (src/core/SQSClient.js)\<close>

text \<open>
  A JavaScript error object, as far as the client looks at it. The AWS client is the
  environment: \<open>send\<close> takes a command and the outside world and either rejects with an
  error or resolves with a result, and \<open>clock\<close> is the reading of \<^verbatim>\<open>Date.now()\<close> in a
  world. The client itself holds its circuit breaker and its retry manager.
\<close>

record jsError =
  name :: string
  message :: string

record SQSClient =
  circuitBreaker :: CircuitBreaker
  retryManager :: RetryManager

record SQSConfig =
  cfgCircuitBreaker :: "CircuitBreakerConfig option"
  cfgRetry :: "RetryConfig option"

definition newSQSClient :: "SQSConfig \<Rightarrow> int \<Rightarrow> SQSClient" where
  "newSQSClient config now =
     \<lparr> circuitBreaker = newCircuitBreaker
         (case cfgCircuitBreaker config of
            None \<Rightarrow> \<lparr> cfgFailureThreshold = None, cfgTimeout = None, cfgMonitoringPeriod = None \<rparr>
          | Some c \<Rightarrow> c) now,
       retryManager = newRetryManager
         (case cfgRetry config of
            None \<Rightarrow> \<lparr> cfgMaxRetries = None, cfgBackoffMultiplier = None,
                      cfgMaxBackoffMs = None, cfgInitialDelayMs = None \<rparr>
          | Some c \<Rightarrow> c) \<rparr>"

definition circuitOpenError :: jsError where
  "circuitOpenError = \<lparr> name = ''Error'', message = ''Circuit breaker is open - operation not allowed'' \<rparr>"

text \<open>The inner \<^verbatim>\<open>executeFn\<close>: one \<^verbatim>\<open>awsClient.send\<close>, reported to the breaker.\<close>

definition executeFn ::
  "('c \<Rightarrow> 'w \<Rightarrow> (jsError + 'r) \<times> 'w) \<Rightarrow> ('w \<Rightarrow> int) \<Rightarrow> 'c \<Rightarrow> SQSClient \<times> 'w
   \<Rightarrow> (jsError + 'r) \<times> SQSClient \<times> 'w" where
  "executeFn send clock command cw =
     (case cw of (client, w) \<Rightarrow>
        (case send command w of
           (Inr result, w1) \<Rightarrow>
             (Inr result, client\<lparr>circuitBreaker := recordSuccess (circuitBreaker client)\<rparr>, w1)
         | (Inl error, w1) \<Rightarrow>
             (Inl error, client\<lparr>circuitBreaker := recordFailure (clock w1) (circuitBreaker client)\<rparr>, w1)))"

definition commandRetryOptions :: "jsError RetryOptions" where
  "commandRetryOptions =
     \<lparr> shouldRetry = Some (\<lambda>error.
         name error = ''ThrottlingException'' \<or>
         name error = ''ServiceUnavailableException'' \<or>
         name error = ''InternalServerError'' \<or>
         name error = ''NetworkingError'' \<or>
         name error = ''TimeoutError''),
       onRetry = True,
       onFailure = True \<rparr>"

definition executeCommand ::
  "doubleArithmetic \<Rightarrow> ('c \<Rightarrow> 'w \<Rightarrow> (jsError + 'r) \<times> 'w) \<Rightarrow> ('w \<Rightarrow> int) \<Rightarrow> 'c \<Rightarrow> SQSClient \<times> 'w
   \<Rightarrow> (jsError option + 'r) \<times> (SQSClient \<times> 'w) \<times> jsError retryEffect list" where
  "executeCommand arithmetic send clock command cw =
     (case cw of (client, w) \<Rightarrow>
        (case canExecute (clock w) (circuitBreaker client) of
           (allowed, cb) \<Rightarrow>
             (if \<not> allowed
              then (Inl (Some circuitOpenError), (client\<lparr>circuitBreaker := cb\<rparr>, w), [])
              else executeWithRetry arithmetic (retryManager client) commandRetryOptions
                     (executeFn send clock command) (client\<lparr>circuitBreaker := cb\<rparr>, w))))"

text \<open>
  A client whose breaker is open (the breaker of the first scenario), an AWS client that
  would resolve every command and count it, and a clock that stands at 500 ms.
\<close>

definition openClient :: SQSClient where
  "openClient = \<lparr> circuitBreaker = scenarioBreaker, retryManager = scenarioRetry \<rparr>"

definition countingSend :: "string \<Rightarrow> nat \<Rightarrow> (jsError + string) \<times> nat" where
  "countingSend command sent = (Inr ''ok'', sent + 1)"

definition clockAt500 :: "nat \<Rightarrow> int" where
  "clockAt500 sent = 500"

section \<open>JSON values and \<^verbatim>\<open>JSON.stringify\<close> with an array replacer\<close>

text \<open>
  Message bodies are JSON values; \<open>JUndefined\<close> is JavaScript's \<^verbatim>\<open>undefined\<close>, numbers are
  integers, strings are byte strings, and an object lists its properties in insertion
  order.
\<close>

datatype json =
    JUndefined
  | JNull
  | JBool bool
  | JNumber int
  | JString string
  | JArray "json list"
  | JObject "(string \<times> json) list"

definition digitChar :: "nat \<Rightarrow> char" where
  "digitChar d = ''0123456789abcdef'' ! (d mod 16)"

function natToString :: "nat \<Rightarrow> string" where
  "natToString n = (if n < 10 then [digitChar n] else natToString (n div 10) @ [digitChar (n mod 10)])"
  by pat_completeness auto
termination
  by (relation "measure (\<lambda>n. n)") auto

text \<open>
  \<^verbatim>\<open>Number::toString\<close> for a whole number. A safe integer (of magnitude below
  \<open>2 ^ 53\<close>) is written with all its digits. Beyond, the runtime writes the shortest
  digits that identify the double, padded with zeros or in exponent form; what it writes
  there is the parameter \<open>largeNumberText\<close>.
\<close>

definition numberToString :: "(int \<Rightarrow> string) \<Rightarrow> int \<Rightarrow> string" where
  "numberToString largeNumberText i =
     (if \<bar>i\<bar> < 2 ^ 53
      then (if i < 0 then CHR ''-'' # natToString (nat (- i)) else natToString (nat i))
      else largeNumberText i)"

text \<open>
  The \<^verbatim>\<open>QuoteJSONString\<close> operation of the language: the double quote (0x22) and the
  backslash (0x5C) are escaped, control characters are written as their short escape or
  as \<^verbatim>\<open>\u00XX\<close>.
\<close>

definition quoteChar :: "char \<Rightarrow> string" where
  "quoteChar c =
     (if c = CHR 0x22 then [CHR 0x5C, CHR 0x22]
      else if c = CHR 0x5C then [CHR 0x5C, CHR 0x5C]
      else if c = CHR 0x08 then [CHR 0x5C, CHR ''b'']
      else if c = CHR 0x09 then [CHR 0x5C, CHR ''t'']
      else if c = CHR 0x0A then [CHR 0x5C, CHR ''n'']
      else if c = CHR 0x0C then [CHR 0x5C, CHR ''f'']
      else if c = CHR 0x0D then [CHR 0x5C, CHR ''r'']
      else if (of_char c :: nat) < 32
        then [CHR 0x5C, CHR ''u'', CHR ''0'', CHR ''0'',
              digitChar (of_char c div 16), digitChar (of_char c mod 16)]
      else [c])"

definition quoteJSONString :: "string \<Rightarrow> string" where
  "quoteJSONString s = CHR 0x22 # concat (map quoteChar s) @ [CHR 0x22]"

fun joinWith :: "string \<Rightarrow> string list \<Rightarrow> string" where
  "joinWith sep [] = []"
| "joinWith sep [x] = x"
| "joinWith sep (x # y # ys) = x @ sep @ joinWith sep (y # ys)"

text \<open>
  \<^verbatim>\<open>JSON.stringify(value, propertyList)\<close> with an array as second argument. The array is
  a list of property names, and the serialisation of \<^emph>\<open>every\<close> object, at every depth,
  goes through that list in its order and writes the properties of the object that the
  list names and whose value serialises; all other properties are left out. Array
  elements are all written, \<^verbatim>\<open>undefined\<close> ones as \<^verbatim>\<open>null\<close>. The result is \<open>None\<close> for
  \<^verbatim>\<open>undefined\<close>.
\<close>

definition propertyMember :: "(string \<times> string option) list \<Rightarrow> string \<Rightarrow> string list" where
  "propertyMember serialised p =
     (case map_of serialised p of
        Some (Some str) \<Rightarrow> [quoteJSONString p @ '':'' @ str]
      | _ \<Rightarrow> [])"

definition element :: "string option \<Rightarrow> string" where
  "element serialised = (case serialised of None \<Rightarrow> ''null'' | Some str \<Rightarrow> str)"

primrec stringify :: "(int \<Rightarrow> string) \<Rightarrow> string list \<Rightarrow> json \<Rightarrow> string option" where
  "stringify largeNumberText propertyList JUndefined = None"
| "stringify largeNumberText propertyList JNull = Some ''null''"
| "stringify largeNumberText propertyList (JBool b) = Some (if b then ''true'' else ''false'')"
| "stringify largeNumberText propertyList (JNumber n) = Some (numberToString largeNumberText n)"
| "stringify largeNumberText propertyList (JString s) = Some (quoteJSONString s)"
| "stringify largeNumberText propertyList (JArray xs) =
     Some (''['' @ joinWith '','' (map element (map (stringify largeNumberText propertyList) xs)) @ '']'')"
| "stringify largeNumberText propertyList (JObject kvs) =
     Some (''{'' @ joinWith '',''
        (concat (map (propertyMember (map (map_prod id (stringify largeNumberText propertyList)) kvs)) propertyList)) @ ''}'')"

text \<open>\<^verbatim>\<open>Object.keys(value)\<close>; \<open>None\<close> is the \<^verbatim>\<open>TypeError\<close> for \<^verbatim>\<open>null\<close> and \<^verbatim>\<open>undefined\<close>.\<close>

fun objectKeys :: "json \<Rightarrow> string list option" where
  "objectKeys JUndefined = None"
| "objectKeys JNull = None"
| "objectKeys (JBool b) = Some []"
| "objectKeys (JNumber n) = Some []"
| "objectKeys (JString s) = Some (map natToString [0..<length s])"
| "objectKeys (JArray xs) = Some (map natToString [0..<length xs])"
| "objectKeys (JObject kvs) = Some (map fst kvs)"

text \<open>\<^verbatim>\<open>Array.prototype.sort()\<close> on strings: ascending by character codes.\<close>

fun stringLessEq :: "string \<Rightarrow> string \<Rightarrow> bool" where
  "stringLessEq [] t = True"
| "stringLessEq (c # s) [] = False"
| "stringLessEq (c # s) (d # t) =
     ((of_char c :: nat) < of_char d \<or> (c = d \<and> stringLessEq s t))"

fun insertSorted :: "string \<Rightarrow> string list \<Rightarrow> string list" where
  "insertSorted s [] = [s]"
| "insertSorted s (t # ts) = (if stringLessEq s t then s # t # ts else t # insertSorted s ts)"

definition sortStrings :: "string list \<Rightarrow> string list" where
  "sortStrings ss = foldr insertSorted ss []"

section \<open>DeduplicationManager (src/utils/DeduplicationManager.js)\<close>

text \<open>
  The cache is a JavaScript \<^verbatim>\<open>Map\<close> from deduplication id to insertion time, a partial
  function here (no claim depends on the order of its entries). The hash function of the \<^verbatim>\<open>crypto\<close> module is a parameter
  \<open>digest\<close>, from the algorithm's name and the input to the hexadecimal digest.
\<close>

record DeduplicationConfig =
  cfgStrategy :: "string option"
  cfgHashAlgorithm :: "string option"
  cfgHashLength :: "nat option"

record DeduplicationManager =
  strategy :: string
  hashAlgorithm :: string
  hashLength :: nat
  deduplicationCache :: "string \<rightharpoonup> int"
  cacheExpiry :: nat

text \<open>\<^verbatim>\<open>value || fallback\<close> on strings: the empty string is falsy.\<close>

definition orDefaultString :: "string option \<Rightarrow> string \<Rightarrow> string" where
  "orDefaultString v d = (case v of None \<Rightarrow> d | Some s \<Rightarrow> if s = [] then d else s)"

definition newDeduplicationManager :: "DeduplicationConfig \<Rightarrow> DeduplicationManager" where
  "newDeduplicationManager config =
     \<lparr> strategy = orDefaultString (cfgStrategy config) ''content'',
       hashAlgorithm = orDefaultString (cfgHashAlgorithm config) ''sha256'',
       hashLength = orDefault (cfgHashLength config) 32,
       deduplicationCache = Map.empty,
       cacheExpiry = 300000 \<rparr>"

record MessageOptions =
  messageGroupId :: "string option"
  customId :: "string option"

definition hashString :: "(string \<Rightarrow> string \<Rightarrow> string) \<Rightarrow> DeduplicationManager \<Rightarrow> string \<Rightarrow> string" where
  "hashString digest dm str = take (hashLength dm) (digest (hashAlgorithm dm) str)"

text \<open>
  The string that \<^verbatim>\<open>_hashObject\<close> hashes: \<^verbatim>\<open>JSON.stringify(obj, Object.keys(obj).sort())\<close>.
  \<open>None\<close> when the source throws a \<^verbatim>\<open>TypeError\<close> (no keys of \<^verbatim>\<open>null\<close>, no hash of
  \<^verbatim>\<open>undefined\<close>).
\<close>

definition hashInput :: "(int \<Rightarrow> string) \<Rightarrow> json \<Rightarrow> string option" where
  "hashInput largeNumberText obj =
     (case objectKeys obj of
        None \<Rightarrow> None
      | Some keys \<Rightarrow> stringify largeNumberText (sortStrings keys) obj)"

definition hashObject ::
  "(string \<Rightarrow> string \<Rightarrow> string) \<Rightarrow> (int \<Rightarrow> string) \<Rightarrow> DeduplicationManager \<Rightarrow> json \<Rightarrow> string option" where
  "hashObject digest largeNumberText dm obj = map_option (hashString digest dm) (hashInput largeNumberText obj)"

definition contentForHash :: "int \<Rightarrow> json \<Rightarrow> MessageOptions \<Rightarrow> json" where
  "contentForHash now messageBody options =
     JObject [(''body'', messageBody),
              (''groupId'', case messageGroupId options of None \<Rightarrow> JUndefined | Some g \<Rightarrow> JString g),
              (''timestamp'', JNumber now)]"

definition generateContentBasedId ::
  "(string \<Rightarrow> string \<Rightarrow> string) \<Rightarrow> (int \<Rightarrow> string) \<Rightarrow> int \<Rightarrow> DeduplicationManager \<Rightarrow> json \<Rightarrow> MessageOptions \<Rightarrow> string option" where
  "generateContentBasedId digest largeNumberText now dm messageBody options =
     hashObject digest largeNumberText dm (contentForHash now messageBody options)"

definition generateTimestampBasedId ::
  "(string \<Rightarrow> string \<Rightarrow> string) \<Rightarrow> (int \<Rightarrow> string) \<Rightarrow> int \<Rightarrow> DeduplicationManager \<Rightarrow> string option" where
  "generateTimestampBasedId digest largeNumberText now dm =
     Some (hashString digest dm (numberToString largeNumberText now))"

definition generateHybridId ::
  "(string \<Rightarrow> string \<Rightarrow> string) \<Rightarrow> (int \<Rightarrow> string) \<Rightarrow> int \<Rightarrow> DeduplicationManager \<Rightarrow> json \<Rightarrow> MessageOptions \<Rightarrow> string option" where
  "generateHybridId digest largeNumberText now dm messageBody options =
     (case hashObject digest largeNumberText dm messageBody of
        None \<Rightarrow> None
      | Some contentHash \<Rightarrow>
          Some (hashString digest dm
            (contentHash @ ''-'' @ numberToString largeNumberText now @ ''-''
               @ orDefaultString (messageGroupId options) ''default'')))"

text \<open>The dispatch on the strategy, reached when no usable \<open>customId\<close> was given.\<close>

definition generateByStrategy ::
  "(string \<Rightarrow> string \<Rightarrow> string) \<Rightarrow> (int \<Rightarrow> string) \<Rightarrow> int \<Rightarrow> DeduplicationManager \<Rightarrow> json \<Rightarrow> MessageOptions \<Rightarrow> string option" where
  "generateByStrategy digest largeNumberText now dm messageBody options =
     (if strategy dm = ''content'' then generateContentBasedId digest largeNumberText now dm messageBody options
      else if strategy dm = ''timestamp'' then generateTimestampBasedId digest largeNumberText now dm
      else if strategy dm = ''hybrid'' then generateHybridId digest largeNumberText now dm messageBody options
      else generateContentBasedId digest largeNumberText now dm messageBody options)"

definition generateDeduplicationId ::
  "(string \<Rightarrow> string \<Rightarrow> string) \<Rightarrow> (int \<Rightarrow> string) \<Rightarrow> int \<Rightarrow> DeduplicationManager \<Rightarrow> json \<Rightarrow> MessageOptions \<Rightarrow> string option" where
  "generateDeduplicationId digest largeNumberText now dm messageBody options =
     (case customId options of
        None \<Rightarrow> generateByStrategy digest largeNumberText now dm messageBody options
      | Some custom \<Rightarrow>
          if custom \<noteq> [] then Some (hashString digest dm custom)
          else generateByStrategy digest largeNumberText now dm messageBody options)"

text \<open>
  \<^verbatim>\<open>isDuplicate\<close>: the sweep of expired entries, then the membership test, then the
  insertion of an absent id.
\<close>

definition sweep :: "int \<Rightarrow> nat \<Rightarrow> (string \<rightharpoonup> int) \<Rightarrow> (string \<rightharpoonup> int)" where
  "sweep now expiry cache =
     (\<lambda>key. case cache key of
        None \<Rightarrow> None
      | Some timestamp \<Rightarrow> if now - timestamp > int expiry then None else Some timestamp)"

definition isDuplicate :: "int \<Rightarrow> string \<Rightarrow> DeduplicationManager \<Rightarrow> bool \<times> DeduplicationManager" where
  "isDuplicate now deduplicationId dm =
     (let cache = sweep now (cacheExpiry dm) (deduplicationCache dm) in
      if cache deduplicationId \<noteq> None
      then (True, dm\<lparr>deduplicationCache := cache\<rparr>)
      else (False, dm\<lparr>deduplicationCache := cache(deduplicationId \<mapsto> now)\<rparr>))"

text \<open>A run of \<^verbatim>\<open>isDuplicate\<close> calls, each with its clock reading and its id.\<close>

fun checkAll :: "DeduplicationManager \<Rightarrow> (int \<times> string) list \<Rightarrow> DeduplicationManager" where
  "checkAll dm [] = dm"
| "checkAll dm ((now, key) # calls) = checkAll (snd (isDuplicate now key dm)) calls"

text \<open>Two order messages that differ in their content, for the same group.\<close>

definition orderOne :: json where
  "orderOne = JObject [(''orderId'', JNumber 1), (''item'', JString ''book'')]"

definition orderTwo :: json where
  "orderTwo = JObject [(''orderId'', JNumber 2), (''item'', JString ''lamp'')]"

definition ordersGroup :: MessageOptions where
  "ordersGroup = \<lparr> messageGroupId = Some ''orders'', customId = None \<rparr>"

definition contentManager :: DeduplicationManager where
  "contentManager = newDeduplicationManager
     \<lparr> cfgStrategy = Some ''content'', cfgHashAlgorithm = None, cfgHashLength = None \<rparr>"

section \<open>ProcessingEngine (src/consumers/ProcessingEngine.js)\<close>

text \<open>
  A received message, as far as the engine and the consumer read it. \<^verbatim>\<open>JSON.parse\<close> is
  a parameter \<open>parse\<close> that throws (\<open>Inl\<close>, with the error's message) or returns the
  parsed body; the handler is a parameter that, for a body and its context, returns
  (\<open>None\<close>) or throws an error with a message (\<open>Some\<close>). Clock readings (timestamps,
  processing times), the throttling waits between messages and between batches, and the
  running statistics of the engine are left out: no result count depends on them.
\<close>

record Message =
  MessageId :: string
  ReceiptHandle :: string
  Body :: string

record MessageContext =
  messageId :: string
  receiptHandle :: string

text \<open>
  What \<^verbatim>\<open>_processSingleMessage\<close> resolves with: \<^verbatim>\<open>{success: true, messageId}\<close> or
  \<^verbatim>\<open>{success: false, messageId, error}\<close>.
\<close>

datatype ProcessingResult = Succeeded string | Failed string string

text \<open>
  An entry of \<^verbatim>\<open>results.errors\<close>: \<^verbatim>\<open>{messageId, error}\<close> for a message, or the
  \<^verbatim>\<open>processing_error\<close> that the outer handler of \<^verbatim>\<open>processMessages\<close> records.
\<close>

datatype batchError = MessageError string string | ProcessingError string

record BatchResult =
  total :: nat
  successful :: nat
  failed :: nat
  errors :: "batchError list"

record ProcessingEngine =
  mode :: string
  batchSize :: nat
  throttleDelayMs :: nat
  maxConcurrency :: nat

record ProcessingConfig =
  cfgMode :: "string option"
  cfgBatchSize :: "nat option"
  cfgThrottleDelayMs :: "nat option"
  cfgMaxConcurrency :: "nat option"

definition SEQUENTIAL :: string where
  "SEQUENTIAL = ''sequential''"

definition PARALLEL :: string where
  "PARALLEL = ''parallel''"

definition newProcessingEngine :: "ProcessingConfig \<Rightarrow> ProcessingEngine" where
  "newProcessingEngine config =
     \<lparr> mode = orDefaultString (cfgMode config) SEQUENTIAL,
       batchSize = orDefault (cfgBatchSize config) 5,
       throttleDelayMs = orDefault (cfgThrottleDelayMs config) 0,
       maxConcurrency = orDefault (cfgMaxConcurrency config) 10 \<rparr>"

text \<open>
  \<^verbatim>\<open>_processSingleMessage\<close> is an async function: \<open>Inl\<close> would be a rejection, \<open>Inr\<close> is
  the value it resolves with. Its own \<^verbatim>\<open>try/catch\<close> turns every error of the parse and
  of the handler into a resolved \<^verbatim>\<open>{success: false}\<close>.
\<close>

definition processSingleMessage ::
  "(string \<Rightarrow> string + 'b) \<Rightarrow> ('b \<Rightarrow> MessageContext \<Rightarrow> string option) \<Rightarrow> Message
   \<Rightarrow> string + ProcessingResult" where
  "processSingleMessage parse messageHandler msg =
     (case parse (Body msg) of
        Inl error \<Rightarrow> Inr (Failed (MessageId msg) error)
      | Inr messageBody \<Rightarrow>
          (case messageHandler messageBody
                  \<lparr> messageId = MessageId msg, receiptHandle = ReceiptHandle msg \<rparr> of
             Some error \<Rightarrow> Inr (Failed (MessageId msg) error)
           | None \<Rightarrow> Inr (Succeeded (MessageId msg))))"

text \<open>
  One turn of the \<^verbatim>\<open>for\<close> loop of \<^verbatim>\<open>_processSequential\<close>: the \<^verbatim>\<open>try\<close> block counts a
  success when the awaited call resolves, the \<^verbatim>\<open>catch\<close> block counts a failure when it
  rejects.
\<close>

definition sequentialStep ::
  "(string \<Rightarrow> string + 'b) \<Rightarrow> ('b \<Rightarrow> MessageContext \<Rightarrow> string option) \<Rightarrow> BatchResult \<Rightarrow> Message
   \<Rightarrow> BatchResult" where
  "sequentialStep parse messageHandler results msg =
     (case processSingleMessage parse messageHandler msg of
        Inr resolved \<Rightarrow> results\<lparr>successful := successful results + 1\<rparr>
      | Inl error \<Rightarrow>
          results\<lparr>failed := failed results + 1,
                  errors := errors results @ [MessageError (MessageId msg) error]\<rparr>)"

definition processSequential ::
  "(string \<Rightarrow> string + 'b) \<Rightarrow> ('b \<Rightarrow> MessageContext \<Rightarrow> string option) \<Rightarrow> Message list \<Rightarrow> BatchResult
   \<Rightarrow> BatchResult" where
  "processSequential parse messageHandler messages results =
     foldl (sequentialStep parse messageHandler) results messages"

text \<open>
  \<^verbatim>\<open>_chunkArray\<close>: the loop adds \<open>size\<close> to \<open>i\<close> until \<open>i\<close> reaches the length; with
  \<open>size = 0\<close> on a non-empty array it never ends, which is the value \<open>None\<close>.
\<close>

partial_function (option) chunkFrom :: "'a list \<Rightarrow> nat \<Rightarrow> nat \<Rightarrow> 'a list list \<Rightarrow> 'a list list option" where
  "chunkFrom array chunkSize i chunks =
     (if i < length array
      then chunkFrom array chunkSize (i + chunkSize) (chunks @ [take chunkSize (drop i array)])
      else Some chunks)"

declare chunkFrom.simps [code]

definition chunkArray :: "'a list \<Rightarrow> nat \<Rightarrow> 'a list list option" where
  "chunkArray array chunkSize = chunkFrom array chunkSize 0 []"

text \<open>
  A chunk of \<^verbatim>\<open>_processParallel\<close>: every promise gets a \<^verbatim>\<open>.catch\<close> that resolves with
  \<^verbatim>\<open>{success: false}\<close>, \<^verbatim>\<open>Promise.allSettled\<close> gathers the outcomes in the order of the
  chunk, and \<^verbatim>\<open>forEach\<close> tallies them.
\<close>

definition settle ::
  "(string \<Rightarrow> string + 'b) \<Rightarrow> ('b \<Rightarrow> MessageContext \<Rightarrow> string option) \<Rightarrow> Message
   \<Rightarrow> string + ProcessingResult" where
  "settle parse messageHandler msg =
     (case processSingleMessage parse messageHandler msg of
        Inl error \<Rightarrow> Inr (Failed (MessageId msg) error)
      | Inr resolved \<Rightarrow> Inr resolved)"

definition tally :: "BatchResult \<Rightarrow> Message \<times> (string + ProcessingResult) \<Rightarrow> BatchResult" where
  "tally results settled =
     (case settled of
        (msg, Inr (Succeeded resultId)) \<Rightarrow> results\<lparr>successful := successful results + 1\<rparr>
      | (msg, Inr (Failed resultId error)) \<Rightarrow>
          results\<lparr>failed := failed results + 1,
                  errors := errors results @ [MessageError resultId error]\<rparr>
      | (msg, Inl reason) \<Rightarrow>
          results\<lparr>failed := failed results + 1,
                  errors := errors results @ [MessageError (MessageId msg) reason]\<rparr>)"

definition processChunk ::
  "(string \<Rightarrow> string + 'b) \<Rightarrow> ('b \<Rightarrow> MessageContext \<Rightarrow> string option) \<Rightarrow> BatchResult \<Rightarrow> Message list
   \<Rightarrow> BatchResult" where
  "processChunk parse messageHandler results batchChunk =
     foldl tally results (zip batchChunk (map (settle parse messageHandler) batchChunk))"

text \<open>
  The outer loop of \<^verbatim>\<open>_processParallel\<close>, entered with the counter at \<open>i\<close>. It never
  ends when \<open>batchSize\<close> is 0, or when a chunking does not end.
\<close>

partial_function (option) parallelFrom ::
  "(string \<Rightarrow> string + 'b) \<Rightarrow> ('b \<Rightarrow> MessageContext \<Rightarrow> string option) \<Rightarrow> nat \<Rightarrow> nat \<Rightarrow> Message list
   \<Rightarrow> nat \<Rightarrow> BatchResult \<Rightarrow> BatchResult option" where
  "parallelFrom parse messageHandler perBatch concurrency messages i results =
     (if i < length messages then
        Option.bind
          (chunkArray (take perBatch (drop i messages))
             (min (length (take perBatch (drop i messages))) concurrency))
          (\<lambda>batches.
             parallelFrom parse messageHandler perBatch concurrency messages (i + perBatch)
               (foldl (processChunk parse messageHandler) results batches))
      else Some results)"

declare parallelFrom.simps [code]

record ProcessingOptions =
  optBatchSize :: "nat option"
  optMaxConcurrency :: "nat option"

definition processParallel ::
  "ProcessingEngine \<Rightarrow> (string \<Rightarrow> string + 'b) \<Rightarrow> ('b \<Rightarrow> MessageContext \<Rightarrow> string option)
   \<Rightarrow> Message list \<Rightarrow> BatchResult \<Rightarrow> ProcessingOptions \<Rightarrow> BatchResult option" where
  "processParallel engine parse messageHandler messages results options =
     parallelFrom parse messageHandler
       (orDefault (optBatchSize options) (batchSize engine))
       (orDefault (optMaxConcurrency options) (maxConcurrency engine))
       messages 0 results"

text \<open>
  \<^verbatim>\<open>processMessages\<close>; \<open>None\<close> when it never returns. Nothing in the two strategies
  throws, so the outer \<^verbatim>\<open>catch\<close> (which would add a \<open>ProcessingError\<close>) has no branch.
\<close>

definition processMessages ::
  "ProcessingEngine \<Rightarrow> (string \<Rightarrow> string + 'b) \<Rightarrow> ('b \<Rightarrow> MessageContext \<Rightarrow> string option)
   \<Rightarrow> Message list \<Rightarrow> ProcessingOptions \<Rightarrow> BatchResult option" where
  "processMessages engine parse messageHandler messages options =
     (let results = \<lparr> total = length messages, successful = 0, failed = 0, errors = [] \<rparr> in
      if mode engine = PARALLEL
      then processParallel engine parse messageHandler messages results options
      else Some (processSequential parse messageHandler messages results))"

section \<open>MessageConsumer (src/consumers/MessageConsumer.js)\<close>

text \<open>
  The options of the consumer that the loop reads. The queue client and the health
  monitor are the environment: what the consumer asks of them is returned as a list of
  effects, in the order it happens.
\<close>

record ConsumerOptions =
  processingMode :: string
  consumerBatchSize :: nat
  consumerThrottleDelayMs :: nat
  maxMessages :: nat
  waitTimeSeconds :: nat
  visibilityTimeoutSeconds :: nat
  pollingInterval :: nat

record ConsumerConfig =
  cfgProcessingMode :: "string option"
  cfgConsumerBatchSize :: "nat option"
  cfgConsumerThrottleDelayMs :: "nat option"
  cfgMaxMessages :: "nat option"
  cfgWaitTimeSeconds :: "nat option"
  cfgVisibilityTimeoutSeconds :: "nat option"
  cfgPollingInterval :: "nat option"

record MessageConsumer =
  consumerOptions :: ConsumerOptions
  processingEngine :: ProcessingEngine
  healthMonitor :: bool

definition newMessageConsumer :: "ConsumerConfig \<Rightarrow> MessageConsumer" where
  "newMessageConsumer config =
     (let opts = \<lparr> processingMode = orDefaultString (cfgProcessingMode config) SEQUENTIAL,
                    consumerBatchSize = orDefault (cfgConsumerBatchSize config) 5,
                    consumerThrottleDelayMs = orDefault (cfgConsumerThrottleDelayMs config) 0,
                    maxMessages = orDefault (cfgMaxMessages config) 10,
                    waitTimeSeconds = orDefault (cfgWaitTimeSeconds config) 20,
                    visibilityTimeoutSeconds = orDefault (cfgVisibilityTimeoutSeconds config) 30,
                    pollingInterval = orDefault (cfgPollingInterval config) 1000 \<rparr>
      in \<lparr> consumerOptions = opts,
           processingEngine = newProcessingEngine
             \<lparr> cfgMode = Some (processingMode opts),
               cfgBatchSize = Some (consumerBatchSize opts),
               cfgThrottleDelayMs = Some (consumerThrottleDelayMs opts),
               cfgMaxConcurrency = None \<rparr>,
           healthMonitor = False \<rparr>)"

datatype consumerEffect =
    DeleteMessage string
  | Sleep nat
  | LogError string
  | HealthRecordSuccess
  | HealthRecordFailure string

text \<open>
  \<^verbatim>\<open>_deleteProcessedMessages\<close>: the receipt handles for which \<^verbatim>\<open>_deleteMessage\<close> is
  called. The filter asks, for each message, whether \<^verbatim>\<open>results.successful > 0\<close>.
\<close>

definition deleteProcessedMessages :: "Message list \<Rightarrow> BatchResult \<Rightarrow> string list" where
  "deleteProcessedMessages messages results =
     map ReceiptHandle (filter (\<lambda>msg. successful results > 0) messages)"

fun errorText :: "batchError \<Rightarrow> string" where
  "errorText (MessageError failedId error) = error"
| "errorText (ProcessingError error) = error"

definition updateHealthMonitor :: "BatchResult \<Rightarrow> consumerEffect list" where
  "updateHealthMonitor results =
     (if successful results > 0 then [HealthRecordSuccess] else []) @
     (if failed results > 0 then map (\<lambda>entry. HealthRecordFailure (errorText entry)) (errors results) else [])"

text \<open>
  One pass through the body of the \<^verbatim>\<open>while\<close> loop, given what \<^verbatim>\<open>_receiveMessages\<close>
  did: it threw (\<open>Inl\<close>, the error's message) or returned the messages. \<open>None\<close> when the
  pass never ends.
\<close>

definition loopBody ::
  "MessageConsumer \<Rightarrow> (string \<Rightarrow> string + 'b) \<Rightarrow> ('b \<Rightarrow> MessageContext \<Rightarrow> string option)
   \<Rightarrow> ConsumerOptions \<Rightarrow> string + Message list \<Rightarrow> consumerEffect list option" where
  "loopBody consumer parse messageHandler opts received =
     (case received of
        Inl error \<Rightarrow> Some [LogError error, Sleep (pollingInterval opts * 2)]
      | Inr messages \<Rightarrow>
          if length messages = 0 then Some [Sleep (pollingInterval opts)]
          else
            (case processMessages (processingEngine consumer) parse messageHandler messages
                    \<lparr> optBatchSize = Some (consumerBatchSize opts), optMaxConcurrency = None \<rparr> of
               None \<Rightarrow> None
             | Some results \<Rightarrow>
                 Some (map DeleteMessage (deleteProcessedMessages messages results)
                       @ (if healthMonitor consumer then updateHealthMonitor results else [])
                       @ (if consumerThrottleDelayMs opts > 0
                          then [Sleep (consumerThrottleDelayMs opts)] else []))))"

text \<open>
  The loop. Each element of the list is one pass as the environment shapes it: what the
  receive call did, and whether \<^verbatim>\<open>stop()\<close> was called while the pass was suspended. The
  result is the list of effects and whether the loop is still running after these passes
  (\<open>False\<close>: the \<^verbatim>\<open>while\<close> test failed and \<^verbatim>\<open>_consumeLoop\<close> returned).
\<close>

record pass =
  received :: "string + Message list"
  stopCalled :: bool

fun consumeLoop ::
  "MessageConsumer \<Rightarrow> (string \<Rightarrow> string + 'b) \<Rightarrow> ('b \<Rightarrow> MessageContext \<Rightarrow> string option)
   \<Rightarrow> ConsumerOptions \<Rightarrow> bool \<Rightarrow> pass list \<Rightarrow> consumerEffect list \<times> bool" where
  "consumeLoop consumer parse messageHandler opts isRunning [] = ([], isRunning)"
| "consumeLoop consumer parse messageHandler opts isRunning (p # ps) =
     (if \<not> isRunning then ([], False)
      else
        (case loopBody consumer parse messageHandler opts (received p) of
           None \<Rightarrow> ([], True)
         | Some effects \<Rightarrow>
             (case consumeLoop consumer parse messageHandler opts (\<not> stopCalled p) ps of
                (later, running) \<Rightarrow> (effects @ later, running))))"

text \<open>
  The fifth scenario of the specification: a batch of two messages, the handler succeeds
  for A and throws for B. Bodies are passed to the handler as they are.
\<close>

definition messageA :: Message where
  "messageA = \<lparr> MessageId = ''A'', ReceiptHandle = ''handle-A'', Body = ''ok'' \<rparr>"

definition messageB :: Message where
  "messageB = \<lparr> MessageId = ''B'', ReceiptHandle = ''handle-B'', Body = ''bad'' \<rparr>"

definition plainParse :: "string \<Rightarrow> string + string" where
  "plainParse body = Inr body"

definition failsOnBad :: "string \<Rightarrow> MessageContext \<Rightarrow> string option" where
  "failsOnBad body context = (if body = ''bad'' then Some ''handler failed'' else None)"

definition noConfig :: ConsumerConfig where
  "noConfig = \<lparr> cfgProcessingMode = None, cfgConsumerBatchSize = None,
       cfgConsumerThrottleDelayMs = None, cfgMaxMessages = None, cfgWaitTimeSeconds = None,
       cfgVisibilityTimeoutSeconds = None, cfgPollingInterval = None \<rparr>"

definition sequentialConsumer :: MessageConsumer where
  "sequentialConsumer = newMessageConsumer noConfig"

definition parallelConsumer :: MessageConsumer where
  "parallelConsumer = newMessageConsumer (noConfig\<lparr>cfgProcessingMode := Some PARALLEL\<rparr>)"

definition noOptions :: ProcessingOptions where
  "noOptions = \<lparr> optBatchSize = None, optMaxConcurrency = None \<rparr>"

text \<open>
  Whether the processing of a message fails, read off the parse and the handler alone:
  the message of the error that the parse or the handler throws, if one does.
\<close>

definition failureOf ::
  "(string \<Rightarrow> string + 'b) \<Rightarrow> ('b \<Rightarrow> MessageContext \<Rightarrow> string option) \<Rightarrow> Message \<Rightarrow> string option" where
  "failureOf parse messageHandler msg =
     (case parse (Body msg) of
        Inl error \<Rightarrow> Some error
      | Inr messageBody \<Rightarrow>
          messageHandler messageBody \<lparr> messageId = MessageId msg, receiptHandle = ReceiptHandle msg \<rparr>)"

definition failureEntries ::
  "(string \<Rightarrow> string + 'b) \<Rightarrow> ('b \<Rightarrow> MessageContext \<Rightarrow> string option) \<Rightarrow> Message list \<Rightarrow> batchError list" where
  "failureEntries parse messageHandler messages =
     concat (map (\<lambda>msg. case failureOf parse messageHandler msg of
                           None \<Rightarrow> []
                         | Some error \<Rightarrow> [MessageError (MessageId msg) error]) messages)"

section \<open>Properties of the circuit breaker\<close>

lemma orDefault_pos: "0 < (d::nat) \<Longrightarrow> 0 < orDefault v d"
  by (simp add: orDefault_def split: option.splits)

lemma newCircuitBreaker_threshold_pos: "0 < failureThreshold (newCircuitBreaker config now)"
  by (simp add: newCircuitBreaker_def orDefault_pos)

lemma report_keeps_settings:
  "failureThreshold (report cb r) = failureThreshold cb \<and> timeout (report cb r) = timeout cb"
  by (cases r) (simp_all add: recordFailure_def recordSuccess_def Let_def)

lemma call_keeps_settings:
  "failureThreshold (call cb c) = failureThreshold cb \<and> timeout (call cb c) = timeout cb"
  by (cases c) (simp_all add: recordFailure_def recordSuccess_def reset_def canExecute_def Let_def)

lemma callAll_keeps_settings:
  "failureThreshold (callAll cb cs) = failureThreshold cb \<and> timeout (callAll cb cs) = timeout cb"
  unfolding callAll_def by (induction cs arbitrary: cb) (simp_all add: call_keeps_settings)

lemma reportAll_snoc: "reportAll cb (rs @ [r]) = report (reportAll cb rs) r"
  by (simp add: reportAll_def)

lemma lastFailureIn_snoc_Failure: "lastFailureIn (rs @ [Failure now]) = Some now"
  by (induction rs rule: lastFailureIn.induct) simp_all

lemma lastFailureIn_snoc_Success: "lastFailureIn (rs @ [Success]) = lastFailureIn rs"
  by (induction rs rule: lastFailureIn.induct) simp_all

lemma reportAll_from_new:
  "failureThreshold (reportAll (newCircuitBreaker config t0) rs) = failureThreshold (newCircuitBreaker config t0) \<and>
   timeout (reportAll (newCircuitBreaker config t0) rs) = timeout (newCircuitBreaker config t0) \<and>
   failureCount (reportAll (newCircuitBreaker config t0) rs) = failuresIn rs \<and>
   lastFailureTime (reportAll (newCircuitBreaker config t0) rs) = lastFailureIn rs \<and>
   state (reportAll (newCircuitBreaker config t0) rs) =
     (if failureThreshold (newCircuitBreaker config t0) \<le> failuresIn rs then OPEN else CLOSED)"
proof (induction rs rule: rev_induct)
  case Nil
  have "0 < failureThreshold (newCircuitBreaker config t0)"
    by (rule newCircuitBreaker_threshold_pos)
  then show ?case
    by (simp add: reportAll_def failuresIn_def) (simp add: newCircuitBreaker_def)
next
  case (snoc r rs)
  show ?case
  proof (cases r)
    case (Failure now)
    with snoc show ?thesis
      by (simp add: reportAll_snoc recordFailure_def Let_def failuresIn_def lastFailureIn_snoc_Failure)
  next
    case Success
    with snoc show ?thesis
      by (simp add: reportAll_snoc recordSuccess_def Let_def failuresIn_def lastFailureIn_snoc_Success)
  qed
qed

text \<open>
  C3: a breaker starts CLOSED; after any history of \<^verbatim>\<open>recordFailure()\<close> and
  \<^verbatim>\<open>recordSuccess()\<close> calls its failure count is the number of failures reported so far
  (successes reset nothing), it is OPEN exactly when that number has reached
  \<open>failureThreshold\<close> and CLOSED before, and once OPEN \<^verbatim>\<open>canExecute()\<close> answers false
  unless more than \<open>timeout\<close> milliseconds have passed since the last reported failure.
\<close>

theorem breaker_opens_at_threshold:
  "failureCount (reportAll (newCircuitBreaker config t0) rs) = failuresIn rs \<and>
   state (reportAll (newCircuitBreaker config t0) rs) =
     (if failureThreshold (newCircuitBreaker config t0) \<le> failuresIn rs then OPEN else CLOSED) \<and>
   lastFailureTime (reportAll (newCircuitBreaker config t0) rs) = lastFailureIn rs \<and>
   fst (canExecute now (reportAll (newCircuitBreaker config t0) rs)) =
     (failuresIn rs < failureThreshold (newCircuitBreaker config t0) \<or>
      int (timeout (newCircuitBreaker config t0)) < now - toNumber (lastFailureIn rs))"
  using reportAll_from_new [of config t0 rs]
  by (auto simp add: canExecute_def)

lemma recordSuccess_counts:
  "state cb = HALF_OPEN \<Longrightarrow> Suc (successCount cb) < failureThreshold cb \<Longrightarrow>
   recordSuccess cb = cb\<lparr>successCount := Suc (successCount cb)\<rparr>"
  by (simp add: recordSuccess_def Let_def)

lemma recordSuccess_closes:
  "state cb = HALF_OPEN \<Longrightarrow> failureThreshold cb \<le> Suc (successCount cb) \<Longrightarrow>
   recordSuccess cb = cb\<lparr>state := CLOSED, failureCount := 0, successCount := 0\<rparr>"
  by (simp add: recordSuccess_def Let_def)

lemma recordSuccess_half_open_below:
  "state cb = HALF_OPEN \<Longrightarrow> successCount cb = 0 \<Longrightarrow> k < failureThreshold cb \<Longrightarrow>
   (recordSuccess ^^ k) cb = cb\<lparr>successCount := k\<rparr>"
proof (induction k)
  case 0
  then show ?case by simp
next
  case (Suc k)
  then have ih: "(recordSuccess ^^ k) cb = cb\<lparr>successCount := k\<rparr>" by simp
  have "(recordSuccess ^^ Suc k) cb = recordSuccess (cb\<lparr>successCount := k\<rparr>)"
    using ih by simp
  also have "\<dots> = cb\<lparr>successCount := Suc k\<rparr>"
    using Suc.prems by (simp add: recordSuccess_counts)
  finally show ?case .
qed

lemma recordSuccess_half_open_quota:
  assumes "state cb = HALF_OPEN" and "successCount cb = 0" and "0 < failureThreshold cb"
  shows "(recordSuccess ^^ failureThreshold cb) cb =
         cb\<lparr>state := CLOSED, failureCount := 0, successCount := 0\<rparr>"
proof -
  obtain k where k: "failureThreshold cb = Suc k"
    using assms(3) by (cases "failureThreshold cb") simp_all
  have "(recordSuccess ^^ k) cb = cb\<lparr>successCount := k\<rparr>"
    using assms(1,2) k by (simp add: recordSuccess_half_open_below)
  then have "(recordSuccess ^^ failureThreshold cb) cb = recordSuccess (cb\<lparr>successCount := k\<rparr>)"
    using k by simp
  also have "\<dots> = cb\<lparr>state := CLOSED, failureCount := 0, successCount := 0\<rparr>"
    using assms(1) k by (simp add: recordSuccess_closes)
  finally show ?thesis .
qed

text \<open>
  C4: for a breaker (built by the constructor and used through its methods) that is OPEN,
  once more than \<open>timeout\<close> milliseconds have passed since \<open>lastFailureTime\<close> the next
  \<^verbatim>\<open>canExecute()\<close> answers true and leaves the breaker HALF_OPEN; it stays HALF_OPEN
  for fewer than \<open>failureThreshold\<close> consecutive \<^verbatim>\<open>recordSuccess()\<close> calls, and the
  \<open>failureThreshold\<close>-th one makes it CLOSED with both counters zero.
\<close>

theorem open_breaker_recovers:
  assumes "cb = callAll (newCircuitBreaker config t0) cs"
    and "state cb = OPEN"
    and "int (timeout cb) < now - toNumber (lastFailureTime cb)"
  shows "fst (canExecute now cb) = True \<and>
         state (snd (canExecute now cb)) = HALF_OPEN \<and>
         (\<forall>k < failureThreshold cb.
            state ((recordSuccess ^^ k) (snd (canExecute now cb))) = HALF_OPEN) \<and>
         state ((recordSuccess ^^ failureThreshold cb) (snd (canExecute now cb))) = CLOSED \<and>
         failureCount ((recordSuccess ^^ failureThreshold cb) (snd (canExecute now cb))) = 0 \<and>
         successCount ((recordSuccess ^^ failureThreshold cb) (snd (canExecute now cb))) = 0"
proof -
  let ?h = "cb\<lparr>state := HALF_OPEN, successCount := 0\<rparr>"
  have pos: "0 < failureThreshold cb"
    using assms(1) by (simp add: callAll_keeps_settings newCircuitBreaker_threshold_pos)
  have ce: "canExecute now cb = (True, ?h)"
    using assms(2,3) by (simp add: canExecute_def)
  have below: "\<forall>k < failureThreshold cb. state ((recordSuccess ^^ k) ?h) = HALF_OPEN"
    by (simp add: recordSuccess_half_open_below)
  have quota: "(recordSuccess ^^ failureThreshold cb) ?h =
               ?h\<lparr>state := CLOSED, failureCount := 0, successCount := 0\<rparr>"
    using recordSuccess_half_open_quota [of ?h] pos by simp
  show ?thesis
    using ce below quota by simp
qed

lemma scenarioBreaker_eq:
  "scenarioBreaker = \<lparr> failureThreshold = 3, timeout = 1000, monitoringPeriod = 10000, state = OPEN,
     failureCount = 3, lastFailureTime = Some 3, successCount = 0, monitoringStartTime = 0 \<rparr>"
  by (simp add: scenarioBreaker_def scenarioConfig_def callAll_def newCircuitBreaker_def
      orDefault_def recordFailure_def Let_def)

theorem open_breaker_recovers_witness:
  "state scenarioBreaker = OPEN \<and>
   int (timeout scenarioBreaker) < 1004 - toNumber (lastFailureTime scenarioBreaker) \<and>
   fst (canExecute 1004 scenarioBreaker) = True \<and>
   state (snd (canExecute 1004 scenarioBreaker)) = HALF_OPEN \<and>
   state ((recordSuccess ^^ 3) (snd (canExecute 1004 scenarioBreaker))) = CLOSED \<and>
   failureCount ((recordSuccess ^^ 3) (snd (canExecute 1004 scenarioBreaker))) = 0 \<and>
   successCount ((recordSuccess ^^ 3) (snd (canExecute 1004 scenarioBreaker))) = 0"
proof -
  have a: "state scenarioBreaker = OPEN"
    by (simp add: scenarioBreaker_eq)
  have b: "int (timeout scenarioBreaker) < 1004 - toNumber (lastFailureTime scenarioBreaker)"
    by (simp add: scenarioBreaker_eq toNumber_def)
  have c: "failureThreshold scenarioBreaker = 3"
    by (simp add: scenarioBreaker_eq)
  show ?thesis
    using a b open_breaker_recovers [OF scenarioBreaker_def a b] c by simp
qed

theorem breaker_opens_at_threshold_witness:
  "state (reportAll (newCircuitBreaker scenarioConfig 0) [Failure 1, Success, Failure 2]) = CLOSED \<and>
   state (reportAll (newCircuitBreaker scenarioConfig 0) [Failure 1, Success, Failure 2, Success, Failure 3]) = OPEN \<and>
   fst (canExecute 1003 (reportAll (newCircuitBreaker scenarioConfig 0) [Failure 1, Success, Failure 2, Success, Failure 3])) = False \<and>
   fst (canExecute 1004 (reportAll (newCircuitBreaker scenarioConfig 0) [Failure 1, Success, Failure 2, Success, Failure 3])) = True"
  using breaker_opens_at_threshold [of scenarioConfig 0 "[Failure 1, Success, Failure 2]" 0]
    breaker_opens_at_threshold [of scenarioConfig 0 "[Failure 1, Success, Failure 2, Success, Failure 3]" 1003]
    breaker_opens_at_threshold [of scenarioConfig 0 "[Failure 1, Success, Failure 2, Success, Failure 3]" 1004]
  by (simp add: failuresIn_def scenarioConfig_def newCircuitBreaker_def orDefault_def toNumber_def)

section \<open>Properties of the retry manager\<close>










lemma retryFrom_refused:
  assumes "fn w = (Inl e, w1)" and "\<not> retryAllowed options e" and "attempt \<le> maxRetries rm"
  shows "retryFrom arithmetic rm options fn attempt lastError w =
         (Inl (Some e), w1, Invoked # giveUp rm options (Some e))"
  using assms by (subst retryFrom.simps) simp






text \<open>
  C10: when the first invocation throws an error that \<open>shouldRetry\<close> refuses,
  \<^verbatim>\<open>executeWithRetry\<close> invokes the operation once, calls neither \<open>onRetry\<close> nor
  \<^verbatim>\<open>sleep\<close>, calls \<open>onFailure\<close> (when given) with that error and \<open>maxRetries + 1\<close>,
  and re-raises the error.
\<close>

theorem refused_retry:
  assumes "fn w = (Inl e, w1)" and "shouldRetry options = Some p" and "\<not> p e"
  shows "executeWithRetry arithmetic rm options fn w =
         (Inl (Some e), w1,
          Invoked # (if onFailure options then [OnFailureCalled (Some e) (maxRetries rm + 1)] else []))"
proof -
  have "\<not> retryAllowed options e"
    using assms(2,3) by (simp add: retryAllowed_def)
  then show ?thesis
    using retryFrom_refused [of fn w e w1 options 0 rm arithmetic None] assms(1)
    by (simp add: executeWithRetry_def giveUp_def)
qed




theorem refused_retry_witness:
  "executeWithRetry exactArithmetic scenarioRetry refusingOptions alwaysThrows 0 =
     (Inl (Some ''persistent failure''), 1, [Invoked, OnFailureCalled (Some ''persistent failure'') 4])"
proof -
  have a: "alwaysThrows 0 = (Inl ''persistent failure'', 1)"
    by (simp add: alwaysThrows_def)
  have b: "shouldRetry refusingOptions = Some (\<lambda>error. False)"
    by (simp add: refusingOptions_def)
  show ?thesis
    using refused_retry [of alwaysThrows 0 "''persistent failure''" 1 refusingOptions
        "\<lambda>error. False" exactArithmetic scenarioRetry] a b
    by (simp add: refusingOptions_def scenarioRetry_def newRetryManager_def orDefault_def)
qed

section \<open>Properties of the client\<close>

lemma canExecute_denied_keeps_breaker:
  "\<not> fst (canExecute now cb) \<Longrightarrow> snd (canExecute now cb) = cb"
  by (simp add: canExecute_def split: if_splits)

lemma recordSuccess_changes_breaker: "recordSuccess cb \<noteq> cb"
proof
  assume eq: "recordSuccess cb = cb"
  show False
  proof (cases "state cb = HALF_OPEN \<and> failureThreshold cb \<le> successCount cb + 1")
    case True
    then have "state (recordSuccess cb) = CLOSED"
      by (simp add: recordSuccess_def Let_def)
    with eq True show False by simp
  next
    case False
    then have "successCount (recordSuccess cb) = successCount cb + 1"
      by (auto simp add: recordSuccess_def Let_def)
    with eq show False by simp
  qed
qed

lemma recordFailure_changes_breaker: "recordFailure now cb \<noteq> cb"
proof
  assume eq: "recordFailure now cb = cb"
  have "failureCount (recordFailure now cb) = failureCount cb + 1"
    by (simp add: recordFailure_def Let_def)
  with eq show False by simp
qed

text \<open>
  C8: when the breaker's \<^verbatim>\<open>canExecute()\<close> answers false, \<^verbatim>\<open>executeCommand\<close> throws the
  circuit-open error at once: nothing is invoked and no sleep or callback happens (the
  list of effects is empty), the outside world is as it was (\<^verbatim>\<open>awsClient.send\<close> was not
  called), and the client with its breaker is unchanged (every \<^verbatim>\<open>recordSuccess\<close> or
  \<^verbatim>\<open>recordFailure\<close> would have changed a counter or the state).
\<close>

theorem open_circuit_rejects_command:
  assumes "\<not> fst (canExecute (clock w) (circuitBreaker client))"
  shows "executeCommand arithmetic send clock command (client, w) =
         (Inl (Some circuitOpenError), (client, w), [])"
proof -
  have "snd (canExecute (clock w) (circuitBreaker client)) = circuitBreaker client"
    using assms by (rule canExecute_denied_keeps_breaker)
  with assms have "canExecute (clock w) (circuitBreaker client) = (False, circuitBreaker client)"
    by (metis prod.collapse)
  then show ?thesis
    by (simp add: executeCommand_def)
qed

theorem open_circuit_rejects_command_witness:
  "\<not> fst (canExecute (clockAt500 0) (circuitBreaker openClient)) \<and>
   executeCommand exactArithmetic countingSend clockAt500 ''ReceiveMessage'' (openClient, 0) =
     (Inl (Some circuitOpenError), (openClient, 0), [])"
proof -
  have denied: "\<not> fst (canExecute (clockAt500 0) (circuitBreaker openClient))"
    by (simp add: openClient_def scenarioBreaker_eq canExecute_def clockAt500_def toNumber_def)
  show ?thesis
    using denied
      open_circuit_rejects_command [of clockAt500 0 openClient exactArithmetic countingSend
        "''ReceiveMessage''"]
    by simp
qed

section \<open>Properties of the deduplication manager\<close>

lemma isDuplicate_keeps_expiry: "cacheExpiry (snd (isDuplicate now key dm)) = cacheExpiry dm"
  by (simp add: isDuplicate_def Let_def)

lemma isDuplicate_first_sight:
  assumes "deduplicationCache dm key = None"
  shows "fst (isDuplicate now key dm) = False"
    and "deduplicationCache (snd (isDuplicate now key dm)) key = Some now"
  using assms by (simp_all add: isDuplicate_def Let_def sweep_def)

lemma isDuplicate_known:
  assumes "deduplicationCache dm key = Some t0"
  shows "fst (isDuplicate now key dm) = (now - t0 \<le> int (cacheExpiry dm))"
    and "deduplicationCache (snd (isDuplicate now key dm)) key =
         Some (if now - t0 \<le> int (cacheExpiry dm) then t0 else now)"
  using assms by (auto simp add: isDuplicate_def Let_def sweep_def)

lemma isDuplicate_fresh_entries:
  assumes "deduplicationCache (snd (isDuplicate now key dm)) other = Some timestamp"
  shows "now - timestamp \<le> int (cacheExpiry dm)"
  using assms
  by (auto simp add: isDuplicate_def Let_def sweep_def split: if_splits option.splits)

lemma isDuplicate_other_key:
  assumes "other \<noteq> key" and "now \<le> t1"
    and "deduplicationCache dm key = Some t0 \<or>
         (deduplicationCache dm key = None \<and> t1 - t0 > int (cacheExpiry dm))"
  shows "deduplicationCache (snd (isDuplicate now other dm)) key = Some t0 \<or>
         (deduplicationCache (snd (isDuplicate now other dm)) key = None \<and>
          t1 - t0 > int (cacheExpiry dm))"
  using assms by (auto simp add: isDuplicate_def Let_def sweep_def split: if_splits)

lemma checkAll_keeps_expiry: "cacheExpiry (checkAll dm calls) = cacheExpiry dm"
  by (induction dm calls rule: checkAll.induct) (simp_all add: isDuplicate_keeps_expiry)

lemma checkAll_other_keys:
  assumes "\<forall>(now, other) \<in> set calls. other \<noteq> key \<and> now \<le> t1"
    and "deduplicationCache dm key = Some t0 \<or>
         (deduplicationCache dm key = None \<and> t1 - t0 > int (cacheExpiry dm))"
  shows "deduplicationCache (checkAll dm calls) key = Some t0 \<or>
         (deduplicationCache (checkAll dm calls) key = None \<and> t1 - t0 > int (cacheExpiry dm))"
  using assms
proof (induction dm calls rule: checkAll.induct)
  case (1 dm)
  then show ?case by simp
next
  case (2 dm now other calls)
  have step: "deduplicationCache (snd (isDuplicate now other dm)) key = Some t0 \<or>
         (deduplicationCache (snd (isDuplicate now other dm)) key = None \<and>
          t1 - t0 > int (cacheExpiry (snd (isDuplicate now other dm))))"
    using isDuplicate_other_key [of other key now t1 dm t0] "2.prems"
    by (simp add: isDuplicate_keeps_expiry)
  have rest: "\<forall>(now, other) \<in> set calls. other \<noteq> key \<and> now \<le> t1"
    using "2.prems"(1) by simp
  show ?case
    using "2.IH" [OF rest step] by (simp add: isDuplicate_keeps_expiry)
qed

text \<open>
  C6: the first \<^verbatim>\<open>isDuplicate(k)\<close>, for a key absent from the cache, answers false and
  stores \<open>k\<close> with the current time \<open>t0\<close>. After any calls for other keys made no later
  than \<open>t1\<close>, the repeat call for \<open>k\<close> at \<open>t1\<close> answers true exactly when
  \<open>t1 - t0 \<le> cacheExpiry\<close>; past the expiry it answers false again and stores \<open>k\<close> with
  \<open>t1\<close>. No entry older than \<open>cacheExpiry\<close> survives a call.
\<close>

theorem isDuplicate_within_expiry:
  assumes "deduplicationCache dm key = None"
    and "\<forall>(now, other) \<in> set calls. other \<noteq> key \<and> now \<le> t1"
  shows "fst (isDuplicate t0 key dm) = False \<and>
         deduplicationCache (snd (isDuplicate t0 key dm)) key = Some t0 \<and>
         fst (isDuplicate t1 key (checkAll (snd (isDuplicate t0 key dm)) calls)) =
           (t1 - t0 \<le> int (cacheExpiry dm)) \<and>
         deduplicationCache (snd (isDuplicate t1 key (checkAll (snd (isDuplicate t0 key dm)) calls))) key =
           Some (if t1 - t0 \<le> int (cacheExpiry dm) then t0 else t1) \<and>
         (\<forall>other timestamp.
            deduplicationCache (snd (isDuplicate t1 key (checkAll (snd (isDuplicate t0 key dm)) calls))) other
              = Some timestamp \<longrightarrow>
            t1 - timestamp \<le> int (cacheExpiry dm))"
proof -
  let ?dm1 = "snd (isDuplicate t0 key dm)"
  let ?dm2 = "checkAll ?dm1 calls"
  have first: "fst (isDuplicate t0 key dm) = False" "deduplicationCache ?dm1 key = Some t0"
    using assms(1) by (rule isDuplicate_first_sight)+
  have expiry: "cacheExpiry ?dm2 = cacheExpiry dm"
    by (simp add: checkAll_keeps_expiry isDuplicate_keeps_expiry)
  have between: "deduplicationCache ?dm2 key = Some t0 \<or>
         (deduplicationCache ?dm2 key = None \<and> t1 - t0 > int (cacheExpiry dm))"
    using checkAll_other_keys [OF assms(2), of ?dm1 t0] first(2)
    by (simp add: isDuplicate_keeps_expiry)
  have repeat: "fst (isDuplicate t1 key ?dm2) = (t1 - t0 \<le> int (cacheExpiry dm)) \<and>
         deduplicationCache (snd (isDuplicate t1 key ?dm2)) key =
           Some (if t1 - t0 \<le> int (cacheExpiry dm) then t0 else t1)"
  proof (cases "deduplicationCache ?dm2 key")
    case None
    with between have "t1 - t0 > int (cacheExpiry dm)" by simp
    with isDuplicate_first_sight [OF None, of t1] show ?thesis by simp
  next
    case (Some t)
    with between have "deduplicationCache ?dm2 key = Some t0" by simp
    from isDuplicate_known [OF this, of t1] show ?thesis by (simp add: expiry)
  qed
  have fresh: "\<forall>other timestamp.
            deduplicationCache (snd (isDuplicate t1 key ?dm2)) other = Some timestamp \<longrightarrow>
            t1 - timestamp \<le> int (cacheExpiry dm)"
    using isDuplicate_fresh_entries [of t1 key ?dm2] by (simp add: expiry)
  show ?thesis
    using first repeat fresh by simp
qed

theorem isDuplicate_within_expiry_witness:
  "fst (isDuplicate 1000 ''k1'' contentManager) = False \<and>
   fst (isDuplicate 5000 ''k1'' (checkAll (snd (isDuplicate 1000 ''k1'' contentManager)) [(2000, ''k2'')])) = True \<and>
   fst (isDuplicate 400000 ''k1'' (checkAll (snd (isDuplicate 1000 ''k1'' contentManager)) [(2000, ''k2'')])) = False"
proof -
  have absent: "deduplicationCache contentManager ''k1'' = None"
    by (simp add: contentManager_def newDeduplicationManager_def)
  have expiry: "cacheExpiry contentManager = 300000"
    by (simp add: contentManager_def newDeduplicationManager_def)
  have soon: "\<forall>(now, other) \<in> set [(2000, ''k2'')]. other \<noteq> ''k1'' \<and> now \<le> (5000::int)"
    by simp
  have late: "\<forall>(now, other) \<in> set [(2000, ''k2'')]. other \<noteq> ''k1'' \<and> now \<le> (400000::int)"
    by simp
  show ?thesis
    using isDuplicate_within_expiry [OF absent soon, of 1000]
      isDuplicate_within_expiry [OF absent late, of 1000]
    by (simp add: expiry)
qed

lemma sortedContentKeys:
  "sortStrings [''body'', ''groupId'', ''timestamp''] = [''body'', ''groupId'', ''timestamp'']"
  by code_simp

lemma hashInput_contentForHash:
  "hashInput largeNumberText (contentForHash now messageBody options) =
   stringify largeNumberText [''body'', ''groupId'', ''timestamp''] (contentForHash now messageBody options)"
  by (simp add: hashInput_def contentForHash_def sortedContentKeys)

lemma propertyMember_absent:
  "p \<notin> fst ` set kvs \<Longrightarrow> propertyMember (map (map_prod id f) kvs) p = []"
proof -
  assume "p \<notin> fst ` set kvs"
  then have "map_of (map (map_prod id f) kvs) p = None"
    by (induction kvs) auto
  then show ?thesis by (simp add: propertyMember_def)
qed

lemma stringify_foreign_object:
  assumes "set propertyList \<inter> fst ` set kvs = {}"
  shows "stringify largeNumberText propertyList (JObject kvs) = Some ''{}''"
proof -
  have "\<forall>p \<in> set propertyList. propertyMember (map (map_prod id (stringify largeNumberText propertyList)) kvs) p = []"
    using assms by (auto intro!: propertyMember_absent)
  then have c: "concat (map (propertyMember (map (map_prod id (stringify largeNumberText propertyList)) kvs)) propertyList) = []"
    by simp
  show ?thesis
    unfolding stringify.simps c by simp
qed

lemma content_id_ignores_other_properties:
  assumes "{''body'', ''groupId'', ''timestamp''} \<inter> fst ` set kvs = {}"
  shows "generateContentBasedId digest largeNumberText now dm (JObject kvs) options =
         generateContentBasedId digest largeNumberText now dm (JObject []) options"
proof -
  have a: "stringify largeNumberText [''body'', ''groupId'', ''timestamp''] (JObject kvs) = Some ''{}''"
    using assms by (intro stringify_foreign_object) simp
  have b: "stringify largeNumberText [''body'', ''groupId'', ''timestamp''] (JObject []) = Some ''{}''"
    by (intro stringify_foreign_object) simp
  have "hashInput largeNumberText (contentForHash now (JObject kvs) options) =
        hashInput largeNumberText (contentForHash now (JObject []) options)"
    unfolding hashInput_contentForHash
    unfolding contentForHash_def stringify.simps propertyMember_def
    using a b by simp
  then show ?thesis
    by (simp add: generateContentBasedId_def hashObject_def)
qed

lemma orders_differ: "orderOne \<noteq> orderTwo"
  by (simp add: orderOne_def orderTwo_def)

lemma orders_hashInput:
  "hashInput largeNumberText (contentForHash 1000 orderOne ordersGroup) =
     Some (''{'' @ quoteJSONString ''body'' @ '':{},'' @ quoteJSONString ''groupId'' @ '':''
             @ quoteJSONString ''orders'' @ '','' @ quoteJSONString ''timestamp'' @ '':1000}'')"
  "hashInput largeNumberText (contentForHash 1000 orderTwo ordersGroup) =
     Some (''{'' @ quoteJSONString ''body'' @ '':{},'' @ quoteJSONString ''groupId'' @ '':''
             @ quoteJSONString ''orders'' @ '','' @ quoteJSONString ''timestamp'' @ '':1000}'')"
  by code_simp+

text \<open>
  C7 at its failing input: two bodies that differ in every property, hashed for the same
  group at the same time, give the same hash input
  \<^verbatim>\<open>{"body":{},"groupId":"orders","timestamp":1000}\<close> and so the same deduplication id,
  whatever the hash function. The replacer array \<^verbatim>\<open>Object.keys(obj).sort()\<close> names the
  three top-level properties only, and \<^verbatim>\<open>JSON.stringify\<close> applies it to the nested body
  as well.
\<close>

theorem content_id_same_for_different_bodies:
  "orderOne \<noteq> orderTwo \<and>
   hashInput largeNumberText (contentForHash 1000 orderOne ordersGroup) =
     Some (''{'' @ quoteJSONString ''body'' @ '':{},'' @ quoteJSONString ''groupId'' @ '':''
             @ quoteJSONString ''orders'' @ '','' @ quoteJSONString ''timestamp'' @ '':1000}'') \<and>
   hashInput largeNumberText (contentForHash 1000 orderTwo ordersGroup) =
     hashInput largeNumberText (contentForHash 1000 orderOne ordersGroup) \<and>
   generateDeduplicationId digest largeNumberText 1000 contentManager orderTwo ordersGroup =
     generateDeduplicationId digest largeNumberText 1000 contentManager orderOne ordersGroup"
proof -
  have same: "hashInput largeNumberText (contentForHash 1000 orderTwo ordersGroup) =
              hashInput largeNumberText (contentForHash 1000 orderOne ordersGroup)"
    by (simp only: orders_hashInput)
  have s: "strategy contentManager = ''content''"
    by (simp add: contentManager_def newDeduplicationManager_def orDefaultString_def)
  have c: "customId ordersGroup = None"
    by (simp add: ordersGroup_def)
  have "generateDeduplicationId digest largeNumberText 1000 contentManager orderTwo ordersGroup =
        generateDeduplicationId digest largeNumberText 1000 contentManager orderOne ordersGroup"
    by (simp add: generateDeduplicationId_def generateByStrategy_def generateContentBasedId_def
        hashObject_def same s c)
  with same orders_differ orders_hashInput(1) show ?thesis
    by simp
qed

lemma content_id_timestamp_enters:
  "hashInput largeNumberText (contentForHash 1000 orderOne ordersGroup) \<noteq>
   hashInput largeNumberText (contentForHash 1001 orderOne ordersGroup)"
  by code_simp

section \<open>Properties of the processing engine\<close>

lemma processSingleMessage_resolves:
  "processSingleMessage parse messageHandler msg =
     Inr (case failureOf parse messageHandler msg of
            None \<Rightarrow> Succeeded (MessageId msg)
          | Some error \<Rightarrow> Failed (MessageId msg) error)"
  by (simp add: processSingleMessage_def failureOf_def split: sum.splits option.splits)

lemma sequentialStep_counts_success:
  "sequentialStep parse messageHandler results msg = results\<lparr>successful := successful results + 1\<rparr>"
  by (simp add: sequentialStep_def processSingleMessage_resolves)

lemma processSequential_counts_all_successful:
  "processSequential parse messageHandler messages results =
     results\<lparr>successful := successful results + length messages\<rparr>"
  unfolding processSequential_def
  by (induction messages arbitrary: results) (simp_all add: sequentialStep_counts_success)

lemma tally_settle:
  "tally results (msg, settle parse messageHandler msg) =
     (case failureOf parse messageHandler msg of
        None \<Rightarrow> results\<lparr>successful := successful results + 1\<rparr>
      | Some error \<Rightarrow>
          results\<lparr>failed := failed results + 1,
                  errors := errors results @ [MessageError (MessageId msg) error]\<rparr>)"
  by (simp add: tally_def settle_def processSingleMessage_resolves split: option.splits)

lemma processChunk_Nil: "processChunk parse messageHandler results [] = results"
  by (simp add: processChunk_def)

lemma processChunk_Cons:
  "processChunk parse messageHandler results (msg # msgs) =
     processChunk parse messageHandler (tally results (msg, settle parse messageHandler msg)) msgs"
  by (simp add: processChunk_def)

lemma processChunk_append:
  "processChunk parse messageHandler results (xs @ ys) =
     processChunk parse messageHandler (processChunk parse messageHandler results xs) ys"
  by (induction xs arbitrary: results) (simp_all add: processChunk_Nil processChunk_Cons)

lemma foldl_processChunk:
  "foldl (processChunk parse messageHandler) results batches =
     processChunk parse messageHandler results (concat batches)"
  by (induction batches arbitrary: results) (simp_all add: processChunk_Nil processChunk_append)

lemma processChunk_counts:
  "processChunk parse messageHandler results messages =
     results\<lparr>successful := successful results
                  + length (filter (\<lambda>msg. failureOf parse messageHandler msg = None) messages),
             failed := failed results
                  + length (filter (\<lambda>msg. failureOf parse messageHandler msg \<noteq> None) messages),
             errors := errors results @ failureEntries parse messageHandler messages\<rparr>"
proof (induction messages arbitrary: results)
  case Nil
  then show ?case by (simp add: processChunk_Nil failureEntries_def)
next
  case (Cons msg messages)
  show ?case
    by (cases "failureOf parse messageHandler msg")
      (simp_all add: processChunk_Cons tally_settle Cons.IH failureEntries_def)
qed

lemma chunkFrom_returns:
  assumes "0 < chunkSize"
  shows "\<exists>more. chunkFrom array chunkSize i chunks = Some (chunks @ more) \<and> concat more = drop i array"
proof (induction "length array - i" arbitrary: i chunks rule: less_induct)
  case less
  show ?case
  proof (cases "i < length array")
    case False
    then show ?thesis
      by (subst chunkFrom.simps) simp
  next
    case True
    then have "length array - (i + chunkSize) < length array - i"
      using assms by simp
    from less [OF this, of "chunks @ [take chunkSize (drop i array)]"]
    obtain more where
      more: "chunkFrom array chunkSize (i + chunkSize) (chunks @ [take chunkSize (drop i array)]) =
             Some ((chunks @ [take chunkSize (drop i array)]) @ more)"
        "concat more = drop (i + chunkSize) array"
      by blast
    have "take chunkSize (drop i array) @ drop (i + chunkSize) array = drop i array"
      by (metis add.commute append_take_drop_id drop_drop)
    with more True show ?thesis
      by (subst chunkFrom.simps) (simp add: exI [of _ "take chunkSize (drop i array) # more"])
  qed
qed

lemma chunkArray_returns:
  assumes "0 < chunkSize"
  shows "\<exists>batches. chunkArray array chunkSize = Some batches \<and> concat batches = array"
  using chunkFrom_returns [OF assms, of array 0 "[]"] by (simp add: chunkArray_def)

lemma parallelFrom_returns:
  assumes "0 < perBatch" and "0 < concurrency"
  shows "parallelFrom parse messageHandler perBatch concurrency messages i results =
         Some (processChunk parse messageHandler results (drop i messages))"
proof (induction "length messages - i" arbitrary: i results rule: less_induct)
  case less
  show ?case
  proof (cases "i < length messages")
    case False
    then show ?thesis
      by (subst parallelFrom.simps) (simp add: processChunk_Nil)
  next
    case True
    let ?batch = "take perBatch (drop i messages)"
    have "0 < min (length ?batch) concurrency"
      using True assms by simp
    from chunkArray_returns [OF this, of ?batch]
    obtain batches where
      batches: "chunkArray ?batch (min (length ?batch) concurrency) = Some batches"
        "concat batches = ?batch"
      by blast
    have smaller: "length messages - (i + perBatch) < length messages - i"
      using True assms by simp
    have split: "?batch @ drop (i + perBatch) messages = drop i messages"
      by (metis add.commute append_take_drop_id drop_drop)
    have "parallelFrom parse messageHandler perBatch concurrency messages i results =
          parallelFrom parse messageHandler perBatch concurrency messages (i + perBatch)
            (foldl (processChunk parse messageHandler) results batches)"
      using True batches(1) by (subst parallelFrom.simps) simp
    also have "\<dots> = Some (processChunk parse messageHandler
                 (processChunk parse messageHandler results ?batch) (drop (i + perBatch) messages))"
      using less [OF smaller] by (simp add: foldl_processChunk batches(2))
    also have "\<dots> = Some (processChunk parse messageHandler results (drop i messages))"
      using processChunk_append [of parse messageHandler results ?batch "drop (i + perBatch) messages"]
      by (simp only: split)
    finally show ?thesis .
  qed
qed

text \<open>
  The parallel strategy counts as the specification says: with a positive batch size and
  concurrency limit it returns, every message is counted once, as failed exactly when its
  parse or handler throws, and \<open>errors\<close> lists the failed messages with their ids.
\<close>

lemma processMessages_parallel_counts:
  assumes "mode engine = PARALLEL" and "0 < batchSize engine" and "0 < maxConcurrency engine"
  shows "processMessages engine parse messageHandler messages options =
         Some \<lparr> total = length messages,
                successful = length (filter (\<lambda>msg. failureOf parse messageHandler msg = None) messages),
                failed = length (filter (\<lambda>msg. failureOf parse messageHandler msg \<noteq> None) messages),
                errors = failureEntries parse messageHandler messages \<rparr>"
proof -
  have a: "0 < orDefault (optBatchSize options) (batchSize engine)"
    using assms(2) by (rule orDefault_pos)
  have b: "0 < orDefault (optMaxConcurrency options) (maxConcurrency engine)"
    using assms(3) by (rule orDefault_pos)
  show ?thesis
    using assms(1)
    by (simp add: processMessages_def processParallel_def parallelFrom_returns [OF a b]
        processChunk_counts)
qed

text \<open>
  The sequential strategy counts every message as successful, whatever its handler does:
  \<^verbatim>\<open>_processSingleMessage\<close> never rejects, so the \<^verbatim>\<open>catch\<close> block of the loop is never
  entered.
\<close>

lemma processMessages_sequential_counts:
  assumes "mode engine \<noteq> PARALLEL"
  shows "processMessages engine parse messageHandler messages options =
         Some \<lparr> total = length messages, successful = length messages, failed = 0, errors = [] \<rparr>"
  using assms by (simp add: processMessages_def processSequential_counts_all_successful)

section \<open>Properties of the consumer loop\<close>

lemma engines_of_scenario:
  "processingEngine sequentialConsumer =
     \<lparr> mode = ''sequential'', batchSize = 5, throttleDelayMs = 0, maxConcurrency = 10 \<rparr>"
  "processingEngine parallelConsumer =
     \<lparr> mode = ''parallel'', batchSize = 5, throttleDelayMs = 0, maxConcurrency = 10 \<rparr>"
  by (simp_all add: sequentialConsumer_def parallelConsumer_def newMessageConsumer_def noConfig_def
      newProcessingEngine_def orDefault_def orDefaultString_def SEQUENTIAL_def PARALLEL_def Let_def)

lemma failures_of_scenario:
  "failureOf plainParse failsOnBad messageA = None"
  "failureOf plainParse failsOnBad messageB = Some ''handler failed''"
  by (simp_all add: failureOf_def plainParse_def failsOnBad_def messageA_def messageB_def)

text \<open>
  C2 at its failing input: in sequential mode the batch [A, B], where the handler throws
  for B, is reported as two successes, no failure and no entry in \<open>errors\<close>. The parallel
  mode reports the same batch as one success and one failure with B's id.
\<close>

theorem sequential_reports_failure_as_success:
  "failureOf plainParse failsOnBad messageB = Some ''handler failed'' \<and>
   processMessages (processingEngine sequentialConsumer) plainParse failsOnBad
       [messageA, messageB] noOptions =
     Some \<lparr> total = 2, successful = 2, failed = 0, errors = [] \<rparr> \<and>
   processMessages (processingEngine parallelConsumer) plainParse failsOnBad
       [messageA, messageB] noOptions =
     Some \<lparr> total = 2, successful = 1, failed = 1, errors = [MessageError ''B'' ''handler failed''] \<rparr>"
proof -
  have s: "mode (processingEngine sequentialConsumer) \<noteq> PARALLEL"
    by (simp add: engines_of_scenario PARALLEL_def)
  have p: "mode (processingEngine parallelConsumer) = PARALLEL"
    "0 < batchSize (processingEngine parallelConsumer)"
    "0 < maxConcurrency (processingEngine parallelConsumer)"
    by (simp_all add: engines_of_scenario PARALLEL_def)
  show ?thesis
    by (simp add: processMessages_sequential_counts [OF s] processMessages_parallel_counts [OF p]
        failures_of_scenario failureEntries_def)
      (simp add: messageB_def)
qed

text \<open>
  C1 at its failing input: the consumer receives the batch [A, B] and the handler throws
  for B. In parallel mode the result counts one success and one failure, and the loop
  calls \<^verbatim>\<open>_deleteMessage\<close> for both receipt handles, B's included; in sequential mode
  (where B is counted as a success) it deletes both as well.
\<close>

theorem failed_message_is_deleted:
  "failureOf plainParse failsOnBad messageB = Some ''handler failed'' \<and>
   loopBody parallelConsumer plainParse failsOnBad (consumerOptions parallelConsumer)
       (Inr [messageA, messageB]) =
     Some [DeleteMessage ''handle-A'', DeleteMessage ''handle-B''] \<and>
   loopBody sequentialConsumer plainParse failsOnBad (consumerOptions sequentialConsumer)
       (Inr [messageA, messageB]) =
     Some [DeleteMessage ''handle-A'', DeleteMessage ''handle-B'']"
proof -
  have s: "mode (processingEngine sequentialConsumer) \<noteq> PARALLEL"
    by (simp add: engines_of_scenario PARALLEL_def)
  have p: "mode (processingEngine parallelConsumer) = PARALLEL"
    "0 < batchSize (processingEngine parallelConsumer)"
    "0 < maxConcurrency (processingEngine parallelConsumer)"
    by (simp_all add: engines_of_scenario PARALLEL_def)
  have o: "consumerThrottleDelayMs (consumerOptions parallelConsumer) = 0"
    "consumerThrottleDelayMs (consumerOptions sequentialConsumer) = 0"
    "healthMonitor parallelConsumer = False" "healthMonitor sequentialConsumer = False"
    by (simp_all add: sequentialConsumer_def parallelConsumer_def newMessageConsumer_def noConfig_def
        orDefault_def Let_def)
  show ?thesis
    by (simp add: loopBody_def processMessages_sequential_counts [OF s]
        processMessages_parallel_counts [OF p] failures_of_scenario o deleteProcessedMessages_def)
      (simp add: messageA_def messageB_def)
qed

text \<open>
  What the delete step does in general: it deletes every message of the batch as soon as
  one message was counted successful, and none otherwise.
\<close>

lemma deleteProcessedMessages_all_or_none:
  "deleteProcessedMessages messages results =
     (if successful results > 0 then map ReceiptHandle messages else [])"
  by (simp add: deleteProcessedMessages_def)

lemma consumeLoop_running:
  "\<forall>p \<in> set ps. \<not> stopCalled p \<Longrightarrow>
   snd (consumeLoop consumer parse messageHandler opts True ps) = True"
proof (induction ps)
  case Nil
  then show ?case by simp
next
  case (Cons p ps)
  then have ih: "snd (consumeLoop consumer parse messageHandler opts True ps) = True"
    and p: "\<not> stopCalled p"
    by simp_all
  show ?case
    using ih p by (auto split: option.splits prod.splits)
qed

text \<open>
  C9: in a pass where the receive call throws (an error object with a message), the loop
  logs the error, sleeps for exactly \<open>2 \<times> pollingInterval\<close> and goes on with the next
  pass; and as long as no \<^verbatim>\<open>stop()\<close> is called the loop is still running after any
  number of passes, whichever of them fail.
\<close>

theorem loop_fault_backs_off_and_continues:
  assumes "received p = Inl error"
  shows "consumeLoop consumer parse messageHandler opts True (p # ps) =
           (LogError error # Sleep (2 * pollingInterval opts)
              # fst (consumeLoop consumer parse messageHandler opts (\<not> stopCalled p) ps),
            snd (consumeLoop consumer parse messageHandler opts (\<not> stopCalled p) ps)) \<and>
         ((\<forall>q \<in> set (p # ps). \<not> stopCalled q) \<longrightarrow>
            snd (consumeLoop consumer parse messageHandler opts True (p # ps)) = True)"
proof -
  have body: "loopBody consumer parse messageHandler opts (received p) =
              Some [LogError error, Sleep (2 * pollingInterval opts)]"
    using assms by (simp add: loopBody_def)
  have step: "consumeLoop consumer parse messageHandler opts True (p # ps) =
           (LogError error # Sleep (2 * pollingInterval opts)
              # fst (consumeLoop consumer parse messageHandler opts (\<not> stopCalled p) ps),
            snd (consumeLoop consumer parse messageHandler opts (\<not> stopCalled p) ps))"
    using body by (simp split: prod.splits)
  have run: "(\<forall>q \<in> set (p # ps). \<not> stopCalled q) \<longrightarrow>
            snd (consumeLoop consumer parse messageHandler opts True (p # ps)) = True"
    using consumeLoop_running [of "p # ps" consumer parse messageHandler opts] by blast
  show ?thesis
    using step run by blast
qed

theorem loop_fault_backs_off_and_continues_witness:
  "consumeLoop parallelConsumer plainParse failsOnBad (consumerOptions parallelConsumer) True
     [\<lparr> received = Inl ''receive failed'', stopCalled = False \<rparr>,
      \<lparr> received = Inr [], stopCalled = False \<rparr>] =
   ([LogError ''receive failed'', Sleep 2000, Sleep 1000], True)"
proof -
  have r: "received \<lparr> received = Inl ''receive failed'' :: string + Message list, stopCalled = False \<rparr>
           = Inl ''receive failed''"
    by simp
  have i: "pollingInterval (consumerOptions parallelConsumer) = 1000"
    by (simp add: parallelConsumer_def newMessageConsumer_def noConfig_def orDefault_def Let_def)
  show ?thesis
    using loop_fault_backs_off_and_continues [OF r, of parallelConsumer plainParse failsOnBad
        "consumerOptions parallelConsumer" "[\<lparr> received = Inr [], stopCalled = False \<rparr>]"]
    by (simp add: i loopBody_def)
qed

end
